theory Spec2Isabelle
  imports Main
begin

section \<open>Incremental document ingestion (procesar\_docs2.py)\<close>

text \<open>
  The development follows \<^verbatim>\<open>src/procesar_docs2.py\<close>: the change tracker
  (\<^verbatim>\<open>cargar_registro_archivos\<close>, \<^verbatim>\<open>obtener_archivos_a_procesar\<close>,
  \<^verbatim>\<open>guardar_registro_archivos\<close>), the batch loader
  (\<^verbatim>\<open>procesar_lote_documentos\<close>) and the orchestrator \<^verbatim>\<open>main\<close> with its
  staging directory and swap.

  Modification times are floats returned by \<^verbatim>\<open>os.path.getmtime\<close>; the code only
  compares them with \<^verbatim>\<open><\<close>, so they are modelled by any linearly ordered type
  \<open>'t\<close>. Embedding vectors are opaque values of a type \<open>'v\<close>.
\<close>

subsection \<open>Data model\<close>

text \<open>Every exception the modelled code can raise.\<close>

datatype excepcion =
    JSONDecodeError
  | SplitterError
  | EmbeddingsInitError
  | LoadLocalError
  | EmbedError
  | SaveLocalError
  | RenameError
  | DumpError

text \<open>The dictionary kept in \<^verbatim>\<open>processed_files.json\<close>: path to modification time.\<close>

type_synonym 't registro = "string \<rightharpoonup> 't"

text \<open>
  What \<^verbatim>\<open>ARCHIVO_REGISTRO\<close> can hold on disk: no file, a file that
  \<^verbatim>\<open>open\<close>/\<^verbatim>\<open>json.load\<close> cannot read, or a JSON dictionary.
\<close>

datatype 't archivo_registro = NoExiste | Ilegible | Legible "'t registro"

text \<open>A langchain \<^verbatim>\<open>Document\<close>: text plus the metadata the PDF loader sets.\<close>

record documento =
  page_content :: string
  source :: string
  page :: nat

text \<open>
  A FAISS directory on disk: its entries (document and vector), and whether
  \<^verbatim>\<open>save_local\<close> finished writing it.
\<close>

datatype 'v directorio = Directorio (completo: bool) (entradas: "(documento \<times> 'v) list")

text \<open>
  The part of the file system the program reads and writes: \<^verbatim>\<open>ARCHIVO_REGISTRO\<close>,
  \<^verbatim>\<open>DIR_DOCS\<close> (\<open>None\<close> when the directory does not exist, otherwise the
  \<^verbatim>\<open>*.pdf\<close> files in glob order with their modification times),
  \<^verbatim>\<open>DIR_DB_FAISS\<close> and \<^verbatim>\<open>DIR_DB_TEMP\<close>.
\<close>

record ('t, 'v) fs =
  archivo_registro :: "'t archivo_registro"
  dir_docs :: "(string \<times> 't) list option"
  dir_db_faiss :: "'v directorio option"
  dir_db_temp :: "'v directorio option"

subsection \<open>Change tracker\<close>

definition cargar_registro_archivos :: "('t, 'v) fs \<Rightarrow> excepcion + 't registro" where
  "cargar_registro_archivos s =
     (case archivo_registro s of
        NoExiste \<Rightarrow> Inr Map.empty
      | Ilegible \<Rightarrow> Inl JSONDecodeError
      | Legible r \<Rightarrow> Inr r)"

text \<open>
  The test of line 49:
  \<^verbatim>\<open>nombre_archivo not in registro or registro[nombre_archivo] < ultima_modificacion\<close>.
\<close>

definition es_nuevo :: "('t::linorder) registro \<Rightarrow> string \<Rightarrow> 't \<Rightarrow> bool" where
  "es_nuevo registro nombre_archivo ultima_modificacion =
     (case registro nombre_archivo of
        None \<Rightarrow> True
      | Some r \<Rightarrow> r < ultima_modificacion)"

text \<open>
  The loop of lines 45-51 over the globbed files, threading the list
  \<^verbatim>\<open>archivos_nuevos\<close> and the dictionary it mutates.
\<close>

fun bucle_archivos ::
  "(string \<times> ('t::linorder)) list \<Rightarrow> string list \<Rightarrow> 't registro \<Rightarrow> string list \<times> 't registro"
where
  "bucle_archivos [] archivos_nuevos registro = (archivos_nuevos, registro)"
| "bucle_archivos ((nombre_archivo, ultima_modificacion) # resto) archivos_nuevos registro =
     (if es_nuevo registro nombre_archivo ultima_modificacion
      then bucle_archivos resto (archivos_nuevos @ [nombre_archivo])
             (registro(nombre_archivo \<mapsto> ultima_modificacion))
      else bucle_archivos resto archivos_nuevos registro)"

definition obtener_archivos_a_procesar ::
  "('t::linorder, 'v) fs \<Rightarrow> 't registro \<Rightarrow> string list \<times> 't registro"
where
  "obtener_archivos_a_procesar s registro =
     (case dir_docs s of
        None \<Rightarrow> ([], registro)
      | Some archivos \<Rightarrow> bucle_archivos archivos [] registro)"

text \<open>
  \<^verbatim>\<open>guardar_registro_archivos\<close> opens the file for writing and dumps the dictionary.
  The outcome of the write is decided by the environment: it succeeds, \<^verbatim>\<open>open\<close> raises
  and the file is as before, or \<^verbatim>\<open>json.dump\<close> raises after \<^verbatim>\<open>open\<close> truncated
  the file, which leaves it unreadable.
\<close>

datatype resultado_dump = DumpOK | DumpSinAbrir | DumpTruncado

definition guardar_registro_archivos ::
  "resultado_dump \<Rightarrow> 't registro \<Rightarrow> ('t, 'v) fs \<Rightarrow> (excepcion + unit) \<times> ('t, 'v) fs"
where
  "guardar_registro_archivos d registro s =
     (case d of
        DumpOK \<Rightarrow> (Inr (), s\<lparr>archivo_registro := Legible registro\<rparr>)
      | DumpSinAbrir \<Rightarrow> (Inl DumpError, s)
      | DumpTruncado \<Rightarrow> (Inl DumpError, s\<lparr>archivo_registro := Ilegible\<rparr>))"

subsection \<open>External collaborators\<close>

text \<open>
  The libraries the program calls, as parameters of the model:
  \<^item> \<open>loader\<close>: \<^verbatim>\<open>PyPDFLoader(ruta).load()\<close>, the page texts of a PDF, \<open>None\<close>
    when it raises;
  \<^item> \<open>split_documents\<close>: the text splitter on the loaded pages, \<open>None\<close> when it raises;
  \<^item> \<open>embeddings_init\<close>: whether \<^verbatim>\<open>HuggingFaceEmbeddings(...)\<close> can be constructed;
  \<^item> \<open>embed\<close>: one embedding call on a chunk's text, \<open>None\<close> when it raises;
  \<^item> \<open>save_local\<close>: how the write of the staging directory ends;
  \<^item> \<open>rename_ok\<close>: whether \<^verbatim>\<open>os.rename\<close> succeeds;
  \<^item> \<open>dump\<close>: how the write of the record file ends.

  \<^verbatim>\<open>shutil.rmtree\<close> is taken as one step that succeeds.
\<close>

datatype resultado_escritura = EscrituraOK | SinEscribir | EscrituraParcial nat

record 'v entorno =
  loader :: "string \<Rightarrow> string list option"
  split_documents :: "documento list \<Rightarrow> documento list option"
  embeddings_init :: bool
  embed :: "string \<Rightarrow> 'v option"
  save_local :: resultado_escritura
  rename_ok :: bool
  dump :: resultado_dump

subsection \<open>Loading a batch of documents\<close>

text \<open>The documents of one PDF: one per page, tagged with the path and the page number.\<close>

definition paginas_de :: "string \<Rightarrow> string list \<Rightarrow> documento list" where
  "paginas_de ruta textos =
     map (\<lambda>(i, t). \<lparr>page_content = t, source = ruta, page = i\<rparr>) (enumerate 0 textos)"

text \<open>
  The loop of lines 58-65: a file whose loader raises is logged and skipped, the others
  extend \<^verbatim>\<open>documentos\<close>.
\<close>

fun cargar_lote :: "(string \<Rightarrow> string list option) \<Rightarrow> string list \<Rightarrow> documento list" where
  "cargar_lote ld [] = []"
| "cargar_lote ld (ruta # rutas) =
     (case ld ruta of
        None \<Rightarrow> cargar_lote ld rutas
      | Some textos \<Rightarrow> paginas_de ruta textos @ cargar_lote ld rutas)"

definition procesar_lote_documentos :: "'v entorno \<Rightarrow> string list \<Rightarrow> excepcion + documento list" where
  "procesar_lote_documentos e rutas_archivos =
     (let documentos = cargar_lote (loader e) rutas_archivos in
      if documentos = [] then Inr []
      else (case split_documents e documentos of
              None \<Rightarrow> Inl SplitterError
            | Some chunks \<Rightarrow> Inr chunks))"

subsection \<open>Vector index\<close>

text \<open>
  Embedding a batch: the texts are embedded in order and the first failure raises.
  The first component counts the embedding calls made.
\<close>

fun embed_documents ::
  "(string \<Rightarrow> 'v option) \<Rightarrow> documento list \<Rightarrow> nat \<times> (documento \<times> 'v) list option"
where
  "embed_documents f [] = (0, Some [])"
| "embed_documents f (d # ds) =
     (case f (page_content d) of
        None \<Rightarrow> (1, None)
      | Some v \<Rightarrow>
          (case embed_documents f ds of
             (n, None) \<Rightarrow> (Suc n, None)
           | (n, Some es) \<Rightarrow> (Suc n, Some ((d, v) # es))))"

text \<open>\<^verbatim>\<open>FAISS.load_local\<close> reads a directory that was written completely.\<close>

definition load_local :: "'v directorio \<Rightarrow> excepcion + (documento \<times> 'v) list" where
  "load_local d = (if completo d then Inr (entradas d) else Inl LoadLocalError)"

text \<open>\<^verbatim>\<open>db.add_documents(chunks)\<close> and \<^verbatim>\<open>FAISS.from_documents(chunks, embeddings)\<close>.\<close>

definition add_documents ::
  "(string \<Rightarrow> 'v option) \<Rightarrow> (documento \<times> 'v) list \<Rightarrow> documento list
     \<Rightarrow> nat \<times> (excepcion + (documento \<times> 'v) list)"
where
  "add_documents f db chunks =
     (case embed_documents f chunks of
        (n, None) \<Rightarrow> (n, Inl EmbedError)
      | (n, Some nuevas) \<Rightarrow> (n, Inr (db @ nuevas)))"

definition from_documents ::
  "(string \<Rightarrow> 'v option) \<Rightarrow> documento list \<Rightarrow> nat \<times> (excepcion + (documento \<times> 'v) list)"
where
  "from_documents f chunks = add_documents f [] chunks"

subsection \<open>The orchestrator\<close>

text \<open>
  A run is observed as the list of program points it passes, each with the file system
  as it is there: the start, after the leftover staging directory is removed (line 101),
  after \<^verbatim>\<open>save_local\<close> returned (line 118) or raised, after the old index is removed
  (line 124), after \<^verbatim>\<open>os.rename\<close> (line 125), after the record is written (line 128)
  or its write raised, and after the handler's cleanup (line 137).
\<close>

datatype punto =
    Inicio
  | TempLimpio
  | TempEscrito
  | TempFallido
  | AntiguoEliminado
  | Renombrado
  | RegistroGuardado
  | RegistroFallido
  | Limpieza

text \<open>
  How a run ends: the early return of line 90, the early return of line 114, the end of
  the \<^verbatim>\<open>try\<close> block, the \<^verbatim>\<open>except\<close> handler, or an exception raised outside
  the \<^verbatim>\<open>try\<close> block.
\<close>

datatype resultado = SinCambios | SinChunks | Completado | Abortado excepcion | NoCapturada excepcion

type_synonym ('t, 'v) traza = "(punto \<times> ('t, 'v) fs) list"

record ('t, 'v) ejecucion =
  resultado :: resultado
  traza :: "('t, 'v) traza"
  llamadas_embed :: nat

definition estado_final :: "('t, 'v) ejecucion \<Rightarrow> ('t, 'v) fs" where
  "estado_final ej = snd (last (traza ej))"

text \<open>
  Lines 104-114 (\<^verbatim>\<open>if DIR_DB_FAISS.exists() and chunks_nuevos\<close> /
  \<^verbatim>\<open>elif chunks_nuevos\<close> / \<^verbatim>\<open>else: return\<close>): the number of embedding calls and
  either the exception, or \<open>None\<close> for the early return, or \<^verbatim>\<open>db_final\<close>.
\<close>

definition construir_db ::
  "'v entorno \<Rightarrow> ('t, 'v) fs \<Rightarrow> documento list
     \<Rightarrow> nat \<times> (excepcion + (documento \<times> 'v) list option)"
where
  "construir_db e s chunks_nuevos =
     (if chunks_nuevos \<noteq> [] then
        (case dir_db_faiss s of
           Some d \<Rightarrow>
             (case load_local d of
                Inl x \<Rightarrow> (0, Inl x)
              | Inr db_existente \<Rightarrow>
                  (case add_documents (embed e) db_existente chunks_nuevos of
                     (n, Inl x) \<Rightarrow> (n, Inl x)
                   | (n, Inr db_final) \<Rightarrow> (n, Inr (Some db_final))))
         | None \<Rightarrow>
             (case from_documents (embed e) chunks_nuevos of
                (n, Inl x) \<Rightarrow> (n, Inl x)
              | (n, Inr db_final) \<Rightarrow> (n, Inr (Some db_final))))
      else (0, Inr None))"

text \<open>
  \<^verbatim>\<open>db_final.save_local(str(DIR_DB_TEMP))\<close>: a failed write leaves no directory or a
  directory with part of the entries.
\<close>

definition guardar_temporal ::
  "resultado_escritura \<Rightarrow> (documento \<times> 'v) list \<Rightarrow> ('t, 'v) fs \<Rightarrow> (excepcion + unit) \<times> ('t, 'v) fs"
where
  "guardar_temporal w db_final s =
     (case w of
        EscrituraOK \<Rightarrow> (Inr (), s\<lparr>dir_db_temp := Some (Directorio True db_final)\<rparr>)
      | SinEscribir \<Rightarrow> (Inl SaveLocalError, s)
      | EscrituraParcial k \<Rightarrow>
          (Inl SaveLocalError, s\<lparr>dir_db_temp := Some (Directorio False (take k db_final))\<rparr>))"

text \<open>
  Lines 116-130: staging write, removal of the old index, rename, record. The guarded
  \<^verbatim>\<open>if DIR_DB_FAISS.exists(): shutil.rmtree(DIR_DB_FAISS)\<close> is the update of the
  directory to \<open>None\<close>, which changes nothing when the directory is absent; the same
  holds for the staging directory at lines 100-101 and 136-137.
\<close>

definition publicar ::
  "'v entorno \<Rightarrow> (documento \<times> 'v) list \<Rightarrow> 't registro \<Rightarrow> ('t, 'v) fs
     \<Rightarrow> (excepcion + resultado) \<times> ('t, 'v) traza"
where
  "publicar e db_final registro s1 =
     (case guardar_temporal (save_local e) db_final s1 of
        (Inl x, s2) \<Rightarrow> (Inl x, [(TempFallido, s2)])
      | (Inr _, s2) \<Rightarrow>
          (let s3 = s2\<lparr>dir_db_faiss := None\<rparr> in
           if \<not> rename_ok e
           then (Inl RenameError, [(TempEscrito, s2), (AntiguoEliminado, s3)])
           else
             (let s4 = s3\<lparr>dir_db_faiss := dir_db_temp s3, dir_db_temp := None\<rparr> in
              case guardar_registro_archivos (dump e) registro s4 of
                (Inl x, s5) \<Rightarrow>
                  (Inl x, [(TempEscrito, s2), (AntiguoEliminado, s3), (Renombrado, s4),
                           (RegistroFallido, s5)])
              | (Inr _, s5) \<Rightarrow>
                  (Inr Completado, [(TempEscrito, s2), (AntiguoEliminado, s3), (Renombrado, s4),
                                    (RegistroGuardado, s5)]))))"

text \<open>The body of the \<^verbatim>\<open>try\<close> block, lines 93-130.\<close>

definition cuerpo_try ::
  "'v entorno \<Rightarrow> ('t, 'v) fs \<Rightarrow> string list \<Rightarrow> 't registro
     \<Rightarrow> (excepcion + resultado) \<times> ('t, 'v) traza \<times> nat"
where
  "cuerpo_try e s0 archivos_a_procesar registro =
     (case procesar_lote_documentos e archivos_a_procesar of
        Inl x \<Rightarrow> (Inl x, [], 0)
      | Inr chunks_nuevos \<Rightarrow>
          if \<not> embeddings_init e then (Inl EmbeddingsInitError, [], 0)
          else
            (let s1 = s0\<lparr>dir_db_temp := None\<rparr> in
             case construir_db e s1 chunks_nuevos of
               (n, Inl x) \<Rightarrow> (Inl x, [(TempLimpio, s1)], n)
             | (n, Inr None) \<Rightarrow> (Inr SinChunks, [(TempLimpio, s1)], n)
             | (n, Inr (Some db_final)) \<Rightarrow>
                 (case publicar e db_final registro s1 of
                    (r, tr) \<Rightarrow> (r, (TempLimpio, s1) # tr, n))))"

text \<open>
  \<^verbatim>\<open>main\<close>: the record is loaded and the files are selected outside the
  \<^verbatim>\<open>try\<close> block; the handler removes the staging directory from the state in which
  the exception was raised.
\<close>

definition main :: "'v entorno \<Rightarrow> ('t::linorder, 'v) fs \<Rightarrow> ('t, 'v) ejecucion" where
  "main e s0 =
     (case cargar_registro_archivos s0 of
        Inl x \<Rightarrow> \<lparr>resultado = NoCapturada x, traza = [(Inicio, s0)], llamadas_embed = 0\<rparr>
      | Inr registro_archivos \<Rightarrow>
          (case obtener_archivos_a_procesar s0 registro_archivos of
             (archivos_a_procesar, registro_nuevo) \<Rightarrow>
               if archivos_a_procesar = [] \<and> dir_db_faiss s0 \<noteq> None
               then \<lparr>resultado = SinCambios, traza = [(Inicio, s0)], llamadas_embed = 0\<rparr>
               else
                 (case cuerpo_try e s0 archivos_a_procesar registro_nuevo of
                    (Inr r, tr, n) \<Rightarrow>
                      \<lparr>resultado = r, traza = (Inicio, s0) # tr, llamadas_embed = n\<rparr>
                  | (Inl x, tr, n) \<Rightarrow>
                      (let s = snd (last ((Inicio, s0) # tr)) in
                       \<lparr>resultado = Abortado x,
                        traza = (Inicio, s0) # tr @ [(Limpieza, s\<lparr>dir_db_temp := None\<rparr>)],
                        llamadas_embed = n\<rparr>))))"

subsection \<open>Text chunker\<close>

text \<open>The parameters passed to the splitter at lines 70-74.\<close>

definition chunk_size :: nat where
  "chunk_size = 1000"

definition chunk_overlap :: nat where
  "chunk_overlap = 200"

text \<open>
  Modelled from the spec: the splitting of one page's text. The source delegates it to
  langchain's \<^verbatim>\<open>RecursiveCharacterTextSplitter.split_documents\<close>, whose code is not
  among the sources; only its parameters are. Section 4.1 of the specification gives the
  algorithm: a window of \<^verbatim>\<open>chunk_size\<close> characters slides across the page's text with
  \<^verbatim>\<open>chunk_overlap\<close> characters of repeat between consecutive windows; an empty page
  yields no chunk and a page that fits in one window yields the page itself.
\<close>

function dividir_pagina :: "string \<Rightarrow> string list" where
  "dividir_pagina texto =
     (if texto = [] then []
      else if length texto \<le> chunk_size then [texto]
      else take chunk_size texto # dividir_pagina (drop (chunk_size - chunk_overlap) texto))"
  by pat_completeness auto
termination
  by (relation "measure length") (auto simp: chunk_size_def chunk_overlap_def)

subsection \<open>Observing a run\<close>



subsection \<open>Example inputs\<close>

text \<open>
  An environment where every PDF has one page \<^verbatim>\<open>hola\<close> except \<^verbatim>\<open>b.pdf\<close>, whose
  loader raises; the splitter returns each page as one chunk, the embedding of a text is
  its length, and every write succeeds.
\<close>

definition entorno_ejemplo :: "nat entorno" where
  "entorno_ejemplo =
     \<lparr>loader = (\<lambda>ruta. if ruta = ''b.pdf'' then None else Some [''hola'']),
      split_documents = Some,
      embeddings_init = True,
      embed = (\<lambda>t. Some (length t)),
      save_local = EscrituraOK,
      rename_ok = True,
      dump = DumpOK\<rparr>"

text \<open>A first run: no record, no index, two PDFs.\<close>

definition fs_primera_ejecucion :: "(nat, nat) fs" where
  "fs_primera_ejecucion =
     \<lparr>archivo_registro = NoExiste,
      dir_docs = Some [(''a.pdf'', 5), (''b.pdf'', 7)],
      dir_db_faiss = None,
      dir_db_temp = None\<rparr>"

text \<open>
  A later run: \<^verbatim>\<open>a.pdf\<close> is recorded and indexed (\<open>indice_a\<close>),
  \<^verbatim>\<open>c.pdf\<close> is new, and an interrupted run left a partly written staging directory.
  \<open>indice_ac\<close> is the index once \<^verbatim>\<open>c.pdf\<close> is added.
\<close>

definition indice_a :: "(documento \<times> nat) list" where
  "indice_a = [(\<lparr>page_content = ''hola'', source = ''a.pdf'', page = 0\<rparr>, 4)]"

definition indice_ac :: "(documento \<times> nat) list" where
  "indice_ac =
     [(\<lparr>page_content = ''hola'', source = ''a.pdf'', page = 0\<rparr>, 4),
      (\<lparr>page_content = ''hola'', source = ''c.pdf'', page = 0\<rparr>, 4)]"

definition fs_con_indice :: "(nat, nat) fs" where
  "fs_con_indice =
     \<lparr>archivo_registro = Legible [''a.pdf'' \<mapsto> 5],
      dir_docs = Some [(''a.pdf'', 5), (''c.pdf'', 9)],
      dir_db_faiss = Some (Directorio True indice_a),
      dir_db_temp = Some (Directorio False [])\<rparr>"


section \<open>Change tracker: properties\<close>

lemma es_nuevo_upd_other:
  "p \<noteq> n \<Longrightarrow> es_nuevo (reg(n \<mapsto> u)) p t = es_nuevo reg p t"
  by (simp add: es_nuevo_def)

lemma es_nuevo_iff:
  "es_nuevo reg p t \<longleftrightarrow> reg p = None \<or> (\<exists>r. reg p = Some r \<and> r < t)"
  by (simp add: es_nuevo_def split: option.splits)

text \<open>
  On files with pairwise different paths the loop tests every file against the record
  it started from: it returns the new files in glob order and overwrites exactly their
  entries.
\<close>

lemma bucle_archivos_exact:
  "distinct (map fst fl) \<Longrightarrow>
   bucle_archivos fl acc reg =
     (acc @ map fst (filter (\<lambda>(p, t). es_nuevo reg p t) fl),
      (\<lambda>p. if p \<in> fst ` set (filter (\<lambda>(p, t). es_nuevo reg p t) fl)
            then map_of fl p else reg p))"
proof (induction fl arbitrary: acc reg)
  case Nil
  then show ?case by simp
next
  case (Cons a fl)
  obtain n u where a: "a = (n, u)" by (cases a)
  from Cons.prems a have nin: "n \<notin> fst ` set fl" and d: "distinct (map fst fl)" by auto
  have filt: "filter (\<lambda>(p, t). es_nuevo (reg(n \<mapsto> u)) p t) fl
                = filter (\<lambda>(p, t). es_nuevo reg p t) fl"
  proof (rule filter_cong[OF refl])
    fix x assume x: "x \<in> set fl"
    obtain p t where xp: "x = (p, t)" by (cases x)
    with x nin have "p \<noteq> n" by force
    then show "(case x of (p, t) \<Rightarrow> es_nuevo (reg(n \<mapsto> u)) p t)
                 = (case x of (p, t) \<Rightarrow> es_nuevo reg p t)"
      by (simp add: xp es_nuevo_upd_other)
  qed
  let ?F = "filter (\<lambda>(p, t). es_nuevo reg p t) fl"
  let ?R = "(acc @ map fst (filter (\<lambda>(p, t). es_nuevo reg p t) (a # fl)),
             (\<lambda>p. if p \<in> fst ` set (filter (\<lambda>(p, t). es_nuevo reg p t) (a # fl))
                   then map_of (a # fl) p else reg p))"
  have nF: "n \<notin> fst ` set ?F" using nin by auto
  show ?case
  proof (cases "es_nuevo reg n u")
    case True
    have "bucle_archivos (a # fl) acc reg = bucle_archivos fl (acc @ [n]) (reg(n \<mapsto> u))"
      using True a by simp
    also have "\<dots> = ((acc @ [n]) @ map fst ?F,
        (\<lambda>p. if p \<in> fst ` set ?F then map_of fl p else (reg(n \<mapsto> u)) p))"
      using Cons.IH[OF d, of "acc @ [n]" "reg(n \<mapsto> u)"] by (simp only: filt)
    also have "\<dots> = ?R"
      using True a nF by (auto simp: fun_eq_iff)
    finally show ?thesis .
  next
    case False
    have "bucle_archivos (a # fl) acc reg = bucle_archivos fl acc reg"
      using False a by simp
    also have "\<dots> = (acc @ map fst ?F,
        (\<lambda>p. if p \<in> fst ` set ?F then map_of fl p else reg p))"
      using Cons.IH[OF d, of acc reg] .
    also have "\<dots> = ?R"
      using False a nF by (auto simp: fun_eq_iff)
    finally show ?thesis .
  qed
qed

text \<open>
  Claim C4, as amended. Loading the record returns the persisted dictionary when the
  file exists and can be read, and the empty dictionary when there is no file. When the
  file exists but cannot be read, the load raises; \<^verbatim>\<open>main\<close> calls it outside its
  \<^verbatim>\<open>try\<close> block, so the exception leaves \<^verbatim>\<open>main\<close> uncaught and the run touches
  nothing.
\<close>

theorem cargar_registro_archivos_contract:
  "cargar_registro_archivos (s\<lparr>archivo_registro := Legible r\<rparr>) = Inr r
   \<and> cargar_registro_archivos (s\<lparr>archivo_registro := NoExiste\<rparr>) = Inr Map.empty
   \<and> cargar_registro_archivos (s\<lparr>archivo_registro := Ilegible\<rparr>) = Inl JSONDecodeError
   \<and> main e (s\<lparr>archivo_registro := Ilegible\<rparr>)
       = \<lparr>resultado = NoCapturada JSONDecodeError,
          traza = [(Inicio, s\<lparr>archivo_registro := Ilegible\<rparr>)],
          llamadas_embed = 0\<rparr>"
  by (simp add: cargar_registro_archivos_def main_def)

text \<open>
  The claim as written fails: on an unreadable record file the load does not return the
  empty record.
\<close>

theorem cargar_registro_archivos_ilegible_counterexample:
  "cargar_registro_archivos
     (\<lparr>archivo_registro = Ilegible, dir_docs = None, dir_db_faiss = None,
       dir_db_temp = None\<rparr> :: (nat, nat) fs)
   \<noteq> Inr Map.empty"
  by (simp add: cargar_registro_archivos_def)

text \<open>
  Claim C5. For source files with pairwise different paths and any in-memory record, the
  files-to-ingest computation returns exactly the files whose path is absent from the
  record or whose modification time exceeds the recorded one, and the record it leaves
  holds the current modification time for each returned file and is unchanged at every
  other path.
\<close>

theorem obtener_archivos_a_procesar_exact:
  assumes "dir_docs s = Some archivos"
    and "distinct (map fst archivos)"
  shows "fst (obtener_archivos_a_procesar s registro)
           = map fst (filter (\<lambda>(p, t). registro p = None \<or> (\<exists>r. registro p = Some r \<and> r < t))
                        archivos)
         \<and> (\<forall>p. snd (obtener_archivos_a_procesar s registro) p
               = (if p \<in> set (fst (obtener_archivos_a_procesar s registro))
                  then map_of archivos p else registro p))"
proof -
  have "(\<lambda>(p, t). es_nuevo registro p t)
          = (\<lambda>(p, t). registro p = None \<or> (\<exists>r. registro p = Some r \<and> r < t))"
    by (simp add: fun_eq_iff es_nuevo_iff)
  then show ?thesis
    using assms bucle_archivos_exact[OF assms(2), of "[]" registro]
    by (simp add: obtener_archivos_a_procesar_def)
qed

theorem obtener_archivos_a_procesar_exact_witness:
  "fst (obtener_archivos_a_procesar
         (\<lparr>archivo_registro = NoExiste,
           dir_docs = Some [(''a.pdf'', 5), (''b.pdf'', 7), (''c.pdf'', 9)],
           dir_db_faiss = None, dir_db_temp = None\<rparr> :: (nat, nat) fs)
         [''a.pdf'' \<mapsto> 5, ''b.pdf'' \<mapsto> 6])
     = [''b.pdf'', ''c.pdf'']
   \<and> snd (obtener_archivos_a_procesar
         (\<lparr>archivo_registro = NoExiste,
           dir_docs = Some [(''a.pdf'', 5), (''b.pdf'', 7), (''c.pdf'', 9)],
           dir_db_faiss = None, dir_db_temp = None\<rparr> :: (nat, nat) fs)
         [''a.pdf'' \<mapsto> 5, ''b.pdf'' \<mapsto> 6]) ''b.pdf'' = Some 7"
proof -
  let ?fl = "[(''a.pdf'', 5::nat), (''b.pdf'', 7), (''c.pdf'', 9)]"
  let ?s = "\<lparr>archivo_registro = NoExiste, dir_docs = Some ?fl,
             dir_db_faiss = None, dir_db_temp = None\<rparr> :: (nat, nat) fs"
  have h1: "dir_docs ?s = Some ?fl" by simp
  have h2: "distinct (map fst ?fl)" by simp
  from obtener_archivos_a_procesar_exact[OF h1 h2, of "[''a.pdf'' \<mapsto> 5, ''b.pdf'' \<mapsto> 6]"]
  show ?thesis by simp
qed

section \<open>The orchestrator: the paths of a run\<close>

lemma construir_db_Some:
  assumes "construir_db e s chunks = (n, Inr (Some db))"
  shows "chunks \<noteq> [] \<and> (\<exists>nuevas. embed_documents (embed e) chunks = (n, Some nuevas)
           \<and> db = (case dir_db_faiss s of None \<Rightarrow> [] | Some d \<Rightarrow> entradas d) @ nuevas)
         \<and> (case dir_db_faiss s of None \<Rightarrow> True | Some d \<Rightarrow> completo d)"
  using assms
  by (auto simp: construir_db_def add_documents_def from_documents_def load_local_def
           split: if_splits option.splits sum.splits prod.splits)

lemma construir_db_None:
  assumes "construir_db e s chunks = (n, Inr None)"
  shows "chunks = [] \<and> n = 0"
  using assms
  by (auto simp: construir_db_def add_documents_def from_documents_def load_local_def
           split: if_splits option.splits sum.splits prod.splits)

text \<open>
  Every run of \<^verbatim>\<open>main\<close> follows one of nine paths; each is given with its
  outcome, its trace and its number of embedding calls.
\<close>

lemma main_cases [case_names no_capturada sin_cambios abortado_antes sin_chunks abortado_db
    abortado_temp abortado_rename abortado_dump completado]:
  fixes e :: "'v entorno" and s0 :: "('t::linorder, 'v) fs"
  obtains
    x where "cargar_registro_archivos s0 = Inl x"
      "main e s0 = \<lparr>resultado = NoCapturada x, traza = [(Inicio, s0)], llamadas_embed = 0\<rparr>"
  | reg reg' where "cargar_registro_archivos s0 = Inr reg"
      "obtener_archivos_a_procesar s0 reg = ([], reg')" "dir_db_faiss s0 \<noteq> None"
      "main e s0 = \<lparr>resultado = SinCambios, traza = [(Inicio, s0)], llamadas_embed = 0\<rparr>"
  | x where
      "main e s0 = \<lparr>resultado = Abortado x,
         traza = [(Inicio, s0), (Limpieza, s0\<lparr>dir_db_temp := None\<rparr>)], llamadas_embed = 0\<rparr>"
  | reg archivos reg' where "cargar_registro_archivos s0 = Inr reg"
      "obtener_archivos_a_procesar s0 reg = (archivos, reg')"
      "procesar_lote_documentos e archivos = Inr []"
      "main e s0 = \<lparr>resultado = SinChunks,
         traza = [(Inicio, s0), (TempLimpio, s0\<lparr>dir_db_temp := None\<rparr>)], llamadas_embed = 0\<rparr>"
  | x n where
      "main e s0 = \<lparr>resultado = Abortado x,
         traza = [(Inicio, s0), (TempLimpio, s0\<lparr>dir_db_temp := None\<rparr>),
                  (Limpieza, s0\<lparr>dir_db_temp := None\<rparr>)], llamadas_embed = n\<rparr>"
  | n t where "t = None \<or> (\<exists>db. t = Some (Directorio False db))"
      "main e s0 = \<lparr>resultado = Abortado SaveLocalError,
         traza = [(Inicio, s0), (TempLimpio, s0\<lparr>dir_db_temp := None\<rparr>),
                  (TempFallido, s0\<lparr>dir_db_temp := t\<rparr>),
                  (Limpieza, s0\<lparr>dir_db_temp := None\<rparr>)], llamadas_embed = n\<rparr>"
  | n db where
      "main e s0 = \<lparr>resultado = Abortado RenameError,
         traza = [(Inicio, s0), (TempLimpio, s0\<lparr>dir_db_temp := None\<rparr>),
                  (TempEscrito, s0\<lparr>dir_db_temp := Some (Directorio True db)\<rparr>),
                  (AntiguoEliminado, s0\<lparr>dir_db_temp := Some (Directorio True db), dir_db_faiss := None\<rparr>),
                  (Limpieza, s0\<lparr>dir_db_temp := None, dir_db_faiss := None\<rparr>)], llamadas_embed = n\<rparr>"
  | n db r where "r = archivo_registro s0 \<or> r = Ilegible"
      "main e s0 = \<lparr>resultado = Abortado DumpError,
         traza = [(Inicio, s0), (TempLimpio, s0\<lparr>dir_db_temp := None\<rparr>),
                  (TempEscrito, s0\<lparr>dir_db_temp := Some (Directorio True db)\<rparr>),
                  (AntiguoEliminado, s0\<lparr>dir_db_temp := Some (Directorio True db), dir_db_faiss := None\<rparr>),
                  (Renombrado, s0\<lparr>dir_db_temp := None, dir_db_faiss := Some (Directorio True db)\<rparr>),
                  (RegistroFallido, s0\<lparr>dir_db_temp := None, dir_db_faiss := Some (Directorio True db), archivo_registro := r\<rparr>),
                  (Limpieza, s0\<lparr>dir_db_temp := None, dir_db_faiss := Some (Directorio True db), archivo_registro := r\<rparr>)],
         llamadas_embed = n\<rparr>"
      "\<exists>nuevas. db = (case dir_db_faiss s0 of None \<Rightarrow> [] | Some d \<Rightarrow> entradas d) @ nuevas"
  | n db reg archivos reg' nuevas where "cargar_registro_archivos s0 = Inr reg"
      "obtener_archivos_a_procesar s0 reg = (archivos, reg')"
      "db = (case dir_db_faiss s0 of None \<Rightarrow> [] | Some d \<Rightarrow> entradas d) @ nuevas"
      "main e s0 = \<lparr>resultado = Completado,
         traza = [(Inicio, s0), (TempLimpio, s0\<lparr>dir_db_temp := None\<rparr>),
                  (TempEscrito, s0\<lparr>dir_db_temp := Some (Directorio True db)\<rparr>),
                  (AntiguoEliminado, s0\<lparr>dir_db_temp := Some (Directorio True db), dir_db_faiss := None\<rparr>),
                  (Renombrado, s0\<lparr>dir_db_temp := None, dir_db_faiss := Some (Directorio True db)\<rparr>),
                  (RegistroGuardado, s0\<lparr>dir_db_temp := None, dir_db_faiss := Some (Directorio True db), archivo_registro := Legible reg'\<rparr>)],
         llamadas_embed = n\<rparr>"
proof (cases "cargar_registro_archivos s0")
  case (Inl x)
  then have "main e s0 = \<lparr>resultado = NoCapturada x, traza = [(Inicio, s0)], llamadas_embed = 0\<rparr>"
    by (simp add: main_def)
  with Inl show ?thesis by (rule that(1))
next
  case (Inr reg)
  obtain archivos reg' where ob: "obtener_archivos_a_procesar s0 reg = (archivos, reg')"
    by (cases "obtener_archivos_a_procesar s0 reg")
  let ?s1 = "s0\<lparr>dir_db_temp := None\<rparr>"
  show ?thesis
  proof (cases "archivos = [] \<and> dir_db_faiss s0 \<noteq> None")
    case True
    then have "main e s0 = \<lparr>resultado = SinCambios, traza = [(Inicio, s0)], llamadas_embed = 0\<rparr>"
      using Inr ob by (simp add: main_def)
    with True Inr ob show ?thesis using that(2)[where reg=reg and reg'=reg'] by simp
  next
    case False
    then have "archivos \<noteq> [] \<or> dir_db_faiss s0 = None" by simp
    then have pre: "main e s0 =
      (case cuerpo_try e s0 archivos reg' of
         (Inr r, tr, n) \<Rightarrow> \<lparr>resultado = r, traza = (Inicio, s0) # tr, llamadas_embed = n\<rparr>
       | (Inl x, tr, n) \<Rightarrow>
           (let s = snd (last ((Inicio, s0) # tr)) in
            \<lparr>resultado = Abortado x,
             traza = (Inicio, s0) # tr @ [(Limpieza, s\<lparr>dir_db_temp := None\<rparr>)],
             llamadas_embed = n\<rparr>))"
      using Inr ob by (auto simp: main_def)
    show ?thesis
    proof (cases "procesar_lote_documentos e archivos")
      case (Inl x)
      then have "cuerpo_try e s0 archivos reg' = (Inl x, [], 0)"
        by (simp add: cuerpo_try_def)
      with pre show ?thesis using that(3)[where x=x] by simp
    next
      case pl: (Inr chunks)
      show ?thesis
      proof (cases "embeddings_init e")
        case False
        with pl have "cuerpo_try e s0 archivos reg' = (Inl EmbeddingsInitError, [], 0)"
          by (simp add: cuerpo_try_def)
        with pre show ?thesis using that(3)[where x=EmbeddingsInitError] by simp
      next
        case True
        obtain n r where cd: "construir_db e ?s1 chunks = (n, r)"
          by (cases "construir_db e ?s1 chunks")
        have ct: "cuerpo_try e s0 archivos reg' =
          (case r of
             Inl x \<Rightarrow> (Inl x, [(TempLimpio, ?s1)], n)
           | Inr None \<Rightarrow> (Inr SinChunks, [(TempLimpio, ?s1)], n)
           | Inr (Some db_final) \<Rightarrow>
               (case publicar e db_final reg' ?s1 of
                  (r, tr) \<Rightarrow> (r, (TempLimpio, ?s1) # tr, n)))"
          using pl True cd by (simp add: cuerpo_try_def Let_def)
        show ?thesis
        proof (cases r)
          case (Inl x)
          with pre ct show ?thesis using that(5)[where x=x and n=n] by simp
        next
          case r: (Inr od)
          show ?thesis
          proof (cases od)
            case None
            with cd r have "chunks = []" "n = 0" using construir_db_None by blast+
            with pre ct r None pl Inr ob show ?thesis
              using that(4)[where reg=reg and archivos=archivos and reg'=reg'] by simp
          next
            case (Some db)
            from construir_db_Some[OF cd[unfolded r Some]]
            obtain nuevas where
              db: "db = (case dir_db_faiss s0 of None \<Rightarrow> [] | Some d \<Rightarrow> entradas d) @ nuevas"
              by auto
            have ct': "cuerpo_try e s0 archivos reg' =
               (case publicar e db reg' ?s1 of (r, tr) \<Rightarrow> (r, (TempLimpio, ?s1) # tr, n))"
              using ct r Some by simp
            show ?thesis
            proof (cases "save_local e")
              case EscrituraOK
              show ?thesis
              proof (cases "rename_ok e")
                case False
                with EscrituraOK pre ct' show ?thesis using that(7)[where n=n and db=db]
                  by (simp add: Let_def publicar_def guardar_temporal_def)
              next
                case True
                show ?thesis
                proof (cases "dump e")
                  case DumpOK
                  with True EscrituraOK pre ct' have
                    "main e s0 = \<lparr>resultado = Completado,
                       traza = [(Inicio, s0), (TempLimpio, s0\<lparr>dir_db_temp := None\<rparr>),
                         (TempEscrito, s0\<lparr>dir_db_temp := Some (Directorio True db)\<rparr>),
                         (AntiguoEliminado, s0\<lparr>dir_db_temp := Some (Directorio True db), dir_db_faiss := None\<rparr>),
                         (Renombrado, s0\<lparr>dir_db_temp := None, dir_db_faiss := Some (Directorio True db)\<rparr>),
                         (RegistroGuardado, s0\<lparr>dir_db_temp := None, dir_db_faiss := Some (Directorio True db), archivo_registro := Legible reg'\<rparr>)],
                       llamadas_embed = n\<rparr>"
                    by (simp add: Let_def publicar_def guardar_temporal_def guardar_registro_archivos_def)
                  with Inr ob db show ?thesis by (rule that(9))
                next
                  case DumpSinAbrir
                  with True EscrituraOK pre ct' db show ?thesis
                    using that(8)[where r="archivo_registro s0" and n=n and db=db]
                    by (simp add: Let_def publicar_def guardar_temporal_def guardar_registro_archivos_def)
                next
                  case DumpTruncado
                  with True EscrituraOK pre ct' db show ?thesis
                    using that(8)[where r=Ilegible and n=n and db=db]
                    by (simp add: Let_def publicar_def guardar_temporal_def guardar_registro_archivos_def)
                qed
              qed
            next
              case SinEscribir
              with pre ct' show ?thesis using that(6)[where t=None and n=n]
                by (simp add: Let_def publicar_def guardar_temporal_def)
            next
              case (EscrituraParcial k)
              with pre ct' show ?thesis
                using that(6)[where t="Some (Directorio False (take k db))" and n=n]
                by (simp add: Let_def publicar_def guardar_temporal_def)
            qed
          qed
        qed
      qed
    qed
  qed
qed

section \<open>The orchestrator: example runs\<close>

text \<open>The example runs, evaluated: outcome, trace and embedding calls.\<close>

lemmas run_defs = main_def cuerpo_try_def publicar_def construir_db_def guardar_temporal_def
  guardar_registro_archivos_def add_documents_def from_documents_def load_local_def
  cargar_registro_archivos_def obtener_archivos_a_procesar_def procesar_lote_documentos_def
  paginas_de_def es_nuevo_def Let_def

lemma main_ejemplo_primera:
  "main entorno_ejemplo fs_primera_ejecucion =
     \<lparr>resultado = Completado,
      traza =
        [(Inicio, fs_primera_ejecucion),
         (TempLimpio, fs_primera_ejecucion),
         (TempEscrito, fs_primera_ejecucion\<lparr>dir_db_temp := Some (Directorio True indice_a)\<rparr>),
         (AntiguoEliminado, fs_primera_ejecucion\<lparr>dir_db_temp := Some (Directorio True indice_a)\<rparr>),
         (Renombrado, fs_primera_ejecucion\<lparr>dir_db_faiss := Some (Directorio True indice_a)\<rparr>),
         (RegistroGuardado, fs_primera_ejecucion\<lparr>dir_db_faiss := Some (Directorio True indice_a),
            archivo_registro := Legible [''a.pdf'' \<mapsto> 5, ''b.pdf'' \<mapsto> 7]\<rparr>)],
      llamadas_embed = 1\<rparr>"
  by (simp add: run_defs entorno_ejemplo_def fs_primera_ejecucion_def indice_a_def)

lemma main_ejemplo_con_indice:
  "main entorno_ejemplo fs_con_indice =
     \<lparr>resultado = Completado,
      traza =
        [(Inicio, fs_con_indice),
         (TempLimpio, fs_con_indice\<lparr>dir_db_temp := None\<rparr>),
         (TempEscrito, fs_con_indice\<lparr>dir_db_temp := Some (Directorio True indice_ac)\<rparr>),
         (AntiguoEliminado, fs_con_indice\<lparr>dir_db_temp := Some (Directorio True indice_ac), dir_db_faiss := None\<rparr>),
         (Renombrado, fs_con_indice\<lparr>dir_db_temp := None, dir_db_faiss := Some (Directorio True indice_ac)\<rparr>),
         (RegistroGuardado, fs_con_indice\<lparr>dir_db_temp := None, dir_db_faiss := Some (Directorio True indice_ac),
            archivo_registro := Legible [''a.pdf'' \<mapsto> 5, ''c.pdf'' \<mapsto> 9]\<rparr>)],
      llamadas_embed = 1\<rparr>"
  by (simp add: run_defs entorno_ejemplo_def fs_con_indice_def indice_ac_def indice_a_def)

lemma main_ejemplo_rename_falla:
  "main (entorno_ejemplo\<lparr>rename_ok := False\<rparr>) fs_con_indice =
     \<lparr>resultado = Abortado RenameError,
      traza =
        [(Inicio, fs_con_indice),
         (TempLimpio, fs_con_indice\<lparr>dir_db_temp := None\<rparr>),
         (TempEscrito, fs_con_indice\<lparr>dir_db_temp := Some (Directorio True indice_ac)\<rparr>),
         (AntiguoEliminado, fs_con_indice\<lparr>dir_db_temp := Some (Directorio True indice_ac), dir_db_faiss := None\<rparr>),
         (Limpieza, fs_con_indice\<lparr>dir_db_temp := None, dir_db_faiss := None\<rparr>)],
      llamadas_embed = 1\<rparr>"
  by (simp add: run_defs entorno_ejemplo_def fs_con_indice_def indice_ac_def indice_a_def)


section \<open>The orchestrator: properties\<close>

text \<open>
  A run aborted by any exception other than a failed rename or a failed record write
  ends with no staging directory and with the published index and the record file as
  they were at the start.
\<close>

lemma main_abortado_intacto:
  "resultado (main e s0) = Abortado x \<Longrightarrow> x \<noteq> RenameError \<Longrightarrow> x \<noteq> DumpError \<Longrightarrow>
     dir_db_temp (estado_final (main e s0)) = None
   \<and> dir_db_faiss (estado_final (main e s0)) = dir_db_faiss s0
   \<and> archivo_registro (estado_final (main e s0)) = archivo_registro s0"
  by (cases rule: main_cases[of s0 e]) (auto simp: estado_final_def)




text \<open>
  Claim C2, at a failing input. An index is published; \<^verbatim>\<open>c.pdf\<close> is new; everything
  succeeds up to \<^verbatim>\<open>os.rename\<close>, which raises. The old index was removed at line 124,
  the handler removes the staging directory, and the run ends with no published index,
  while its log line says the original database was not modified.
\<close>

theorem main_rename_falla_pierde_indice:
  "resultado (main (entorno_ejemplo\<lparr>rename_ok := False\<rparr>) fs_con_indice) = Abortado RenameError
   \<and> dir_db_faiss fs_con_indice = Some (Directorio True indice_a)
   \<and> dir_db_faiss (estado_final (main (entorno_ejemplo\<lparr>rename_ok := False\<rparr>) fs_con_indice)) = None
   \<and> dir_db_temp (estado_final (main (entorno_ejemplo\<lparr>rename_ok := False\<rparr>) fs_con_indice)) = None"
  unfolding main_ejemplo_rename_falla by (simp add: estado_final_def fs_con_indice_def)

text \<open>
  Claim C3, at a failing input. On a first run with \<^verbatim>\<open>a.pdf\<close> and \<^verbatim>\<open>b.pdf\<close>, where
  the loader raises on \<^verbatim>\<open>b.pdf\<close>, the run completes, the persisted record holds
  \<^verbatim>\<open>b.pdf\<close> with its modification time, and the published index holds no chunk of
  \<^verbatim>\<open>b.pdf\<close>.
\<close>

theorem main_registra_archivo_omitido:
  "loader entorno_ejemplo ''b.pdf'' = None
   \<and> resultado (main entorno_ejemplo fs_primera_ejecucion) = Completado
   \<and> archivo_registro (estado_final (main entorno_ejemplo fs_primera_ejecucion))
       = Legible [''a.pdf'' \<mapsto> 5, ''b.pdf'' \<mapsto> 7]
   \<and> dir_db_faiss (estado_final (main entorno_ejemplo fs_primera_ejecucion))
       = Some (Directorio True [(\<lparr>page_content = ''hola'', source = ''a.pdf'', page = 0\<rparr>, 4)])"
  unfolding main_ejemplo_primera by (simp add: estado_final_def entorno_ejemplo_def indice_a_def)

section \<open>A second run without changes\<close>

text \<open>
  The loop never lowers a recorded time, leaves the paths it does not meet alone, and
  leaves a record in which none of the files it went through is new.
\<close>

lemma bucle_archivos_mono:
  "reg p = Some r \<Longrightarrow> \<exists>r'. snd (bucle_archivos fl acc reg) p = Some r' \<and> r \<le> r'"
proof (induction fl arbitrary: acc reg r)
  case Nil
  then show ?case by simp
next
  case (Cons a fl)
  obtain n u where a: "a = (n, u)" by (cases a)
  show ?case
  proof (cases "es_nuevo reg n u")
    case False
    then have step: "bucle_archivos (a # fl) acc reg = bucle_archivos fl acc reg"
      using a by simp
    from Cons.prems show ?thesis unfolding step by (rule Cons.IH)
  next
    case True
    then have step: "bucle_archivos (a # fl) acc reg
                       = bucle_archivos fl (acc @ [n]) (reg(n \<mapsto> u))"
      using a by simp
    show ?thesis
    proof (cases "p = n")
      case False
      with Cons.prems have "(reg(n \<mapsto> u)) p = Some r" by simp
      then show ?thesis unfolding step by (rule Cons.IH)
    next
      case pn: True
      with True Cons.prems have ru: "r \<le> u" by (simp add: es_nuevo_def)
      from pn have "(reg(n \<mapsto> u)) p = Some u" by simp
      then have "\<exists>r'. snd (bucle_archivos fl (acc @ [n]) (reg(n \<mapsto> u))) p = Some r' \<and> u \<le> r'"
        by (rule Cons.IH)
      then obtain r' where
        "snd (bucle_archivos fl (acc @ [n]) (reg(n \<mapsto> u))) p = Some r'" "u \<le> r'" by blast
      with ru show ?thesis unfolding step by auto
    qed
  qed
qed


lemma bucle_archivos_al_dia:
  "(p, t) \<in> set fl \<Longrightarrow> \<not> es_nuevo (snd (bucle_archivos fl acc reg)) p t"
proof (induction fl arbitrary: acc reg)
  case Nil
  then show ?case by simp
next
  case (Cons a fl)
  obtain n u where a: "a = (n, u)" by (cases a)
  show ?case
  proof (cases "(p, t) = (n, u)")
    case False
    with Cons.prems a have "(p, t) \<in> set fl" by auto
    from Cons.IH[OF this] a show ?thesis by simp
  next
    case True
    then have pn: "p = n" "t = u" by auto
    show ?thesis
    proof (cases "es_nuevo reg n u")
      case nuevo: True
      then have step: "bucle_archivos (a # fl) acc reg
                         = bucle_archivos fl (acc @ [n]) (reg(n \<mapsto> u))"
        using a by simp
      have "(reg(n \<mapsto> u)) n = Some u" by simp
      then have "\<exists>r'. snd (bucle_archivos fl (acc @ [n]) (reg(n \<mapsto> u))) n = Some r' \<and> u \<le> r'"
        by (rule bucle_archivos_mono)
      then show ?thesis unfolding step pn by (auto simp: es_nuevo_def)
    next
      case False
      then have step: "bucle_archivos (a # fl) acc reg = bucle_archivos fl acc reg"
        using a by simp
      from False obtain r where r: "reg n = Some r" "\<not> r < u"
        by (auto simp: es_nuevo_def split: option.splits)
      from r(1) have "\<exists>r'. snd (bucle_archivos fl acc reg) n = Some r' \<and> r \<le> r'"
        by (rule bucle_archivos_mono)
      with r(2) show ?thesis unfolding step pn by (auto simp: es_nuevo_def)
    qed
  qed
qed

lemma bucle_archivos_sin_nuevos:
  "(\<And>p t. (p, t) \<in> set fl \<Longrightarrow> \<not> es_nuevo reg p t) \<Longrightarrow> bucle_archivos fl acc reg = (acc, reg)"
  by (induction fl arbitrary: acc) auto

lemma obtener_archivos_a_procesar_al_dia:
  assumes "dir_docs s' = dir_docs s"
  shows "obtener_archivos_a_procesar s' (snd (obtener_archivos_a_procesar s reg))
           = ([], snd (obtener_archivos_a_procesar s reg))"
proof (cases "dir_docs s")
  case None
  with assms show ?thesis by (simp add: obtener_archivos_a_procesar_def)
next
  case (Some fl)
  have "bucle_archivos fl [] (snd (bucle_archivos fl [] reg)) = ([], snd (bucle_archivos fl [] reg))"
    by (rule bucle_archivos_sin_nuevos) (rule bucle_archivos_al_dia)
  with Some assms show ?thesis by (simp add: obtener_archivos_a_procesar_def)
qed

text \<open>
  Claim C6, as amended. After a run that completed (index published, record persisted)
  or that ended with the no-changes outcome of line 90, a second run on the file system
  the first one left, whatever the collaborators now do, makes no embedding call, ends
  with the no-changes outcome of line 90, and its only observable state is the state it
  started from: the published index, the record and the staging directory are untouched.
\<close>

theorem segunda_ejecucion_sin_cambios:
  assumes "resultado (main e s0) = Completado \<or> resultado (main e s0) = SinCambios"
  shows "main e' (estado_final (main e s0))
           = \<lparr>resultado = SinCambios,
              traza = [(Inicio, estado_final (main e s0))],
              llamadas_embed = 0\<rparr>"
proof (cases rule: main_cases[of s0 e])
  case (sin_cambios reg reg')
  then show ?thesis by (simp add: estado_final_def main_def)
next
  case (completado n db reg archivos reg' nuevas)
  let ?sf = "s0\<lparr>dir_db_temp := None, dir_db_faiss := Some (Directorio True db),
                 archivo_registro := Legible reg'\<rparr>"
  have sf: "estado_final (main e s0) = ?sf" using completado(4) by (simp add: estado_final_def)
  have "dir_docs ?sf = dir_docs s0" by simp
  from obtener_archivos_a_procesar_al_dia[OF this, of reg] completado(2)
  have "obtener_archivos_a_procesar ?sf reg' = ([], reg')" by simp
  then show ?thesis unfolding sf by (simp add: main_def cargar_registro_archivos_def)
qed (use assms in auto)

theorem segunda_ejecucion_sin_cambios_witness:
  "resultado (main entorno_ejemplo fs_con_indice) = Completado
   \<and> resultado (main (entorno_ejemplo\<lparr>embeddings_init := False\<rparr>)
        (estado_final (main entorno_ejemplo fs_con_indice))) = SinCambios
   \<and> llamadas_embed (main (entorno_ejemplo\<lparr>embeddings_init := False\<rparr>)
        (estado_final (main entorno_ejemplo fs_con_indice))) = 0
   \<and> estado_final (main (entorno_ejemplo\<lparr>embeddings_init := False\<rparr>)
        (estado_final (main entorno_ejemplo fs_con_indice)))
       = estado_final (main entorno_ejemplo fs_con_indice)"
proof -
  have h: "resultado (main entorno_ejemplo fs_con_indice) = Completado
           \<or> resultado (main entorno_ejemplo fs_con_indice) = SinCambios"
    unfolding main_ejemplo_con_indice by simp
  from segunda_ejecucion_sin_cambios[OF h, of "entorno_ejemplo\<lparr>embeddings_init := False\<rparr>"]
  show ?thesis unfolding main_ejemplo_con_indice by (simp add: estado_final_def)
qed

text \<open>
  Two first runs after which a second run does not end that way. When no PDF can be
  loaded, the first run returns at line 114 without persisting anything, and so does the
  second. When the record write raises after the swap, the index is published but the
  record is not: the second run selects \<^verbatim>\<open>c.pdf\<close> again.
\<close>

lemma main_ejemplo_sin_carga:
  "main (entorno_ejemplo\<lparr>loader := (\<lambda>ruta. None)\<rparr>) fs_primera_ejecucion =
     \<lparr>resultado = SinChunks,
      traza = [(Inicio, fs_primera_ejecucion), (TempLimpio, fs_primera_ejecucion)],
      llamadas_embed = 0\<rparr>"
  by (simp add: run_defs entorno_ejemplo_def fs_primera_ejecucion_def)

lemma main_ejemplo_dump_falla:
  "main (entorno_ejemplo\<lparr>dump := DumpSinAbrir\<rparr>) fs_con_indice =
     \<lparr>resultado = Abortado DumpError,
      traza =
        [(Inicio, fs_con_indice),
         (TempLimpio, fs_con_indice\<lparr>dir_db_temp := None\<rparr>),
         (TempEscrito, fs_con_indice\<lparr>dir_db_temp := Some (Directorio True indice_ac)\<rparr>),
         (AntiguoEliminado, fs_con_indice\<lparr>dir_db_temp := Some (Directorio True indice_ac), dir_db_faiss := None\<rparr>),
         (Renombrado, fs_con_indice\<lparr>dir_db_temp := None, dir_db_faiss := Some (Directorio True indice_ac)\<rparr>),
         (RegistroFallido, fs_con_indice\<lparr>dir_db_temp := None, dir_db_faiss := Some (Directorio True indice_ac)\<rparr>),
         (Limpieza, fs_con_indice\<lparr>dir_db_temp := None, dir_db_faiss := Some (Directorio True indice_ac)\<rparr>)],
      llamadas_embed = 1\<rparr>"
  by (simp add: run_defs entorno_ejemplo_def fs_con_indice_def indice_ac_def indice_a_def)

lemma main_ejemplo_dump_falla_segunda:
  "main (entorno_ejemplo\<lparr>dump := DumpSinAbrir\<rparr>)
        (fs_con_indice\<lparr>dir_db_temp := None, dir_db_faiss := Some (Directorio True indice_ac)\<rparr>) =
     \<lparr>resultado = Abortado DumpError,
      traza =
        [(Inicio, fs_con_indice\<lparr>dir_db_temp := None, dir_db_faiss := Some (Directorio True indice_ac)\<rparr>),
         (TempLimpio, fs_con_indice\<lparr>dir_db_temp := None, dir_db_faiss := Some (Directorio True indice_ac)\<rparr>),
         (TempEscrito, fs_con_indice\<lparr>dir_db_temp := Some (Directorio True (indice_ac @ [(\<lparr>page_content = ''hola'', source = ''c.pdf'', page = 0\<rparr>, 4)])),
            dir_db_faiss := Some (Directorio True indice_ac)\<rparr>),
         (AntiguoEliminado, fs_con_indice\<lparr>dir_db_temp := Some (Directorio True (indice_ac @ [(\<lparr>page_content = ''hola'', source = ''c.pdf'', page = 0\<rparr>, 4)])),
            dir_db_faiss := None\<rparr>),
         (Renombrado, fs_con_indice\<lparr>dir_db_temp := None,
            dir_db_faiss := Some (Directorio True (indice_ac @ [(\<lparr>page_content = ''hola'', source = ''c.pdf'', page = 0\<rparr>, 4)]))\<rparr>),
         (RegistroFallido, fs_con_indice\<lparr>dir_db_temp := None,
            dir_db_faiss := Some (Directorio True (indice_ac @ [(\<lparr>page_content = ''hola'', source = ''c.pdf'', page = 0\<rparr>, 4)]))\<rparr>),
         (Limpieza, fs_con_indice\<lparr>dir_db_temp := None,
            dir_db_faiss := Some (Directorio True (indice_ac @ [(\<lparr>page_content = ''hola'', source = ''c.pdf'', page = 0\<rparr>, 4)]))\<rparr>)],
      llamadas_embed = 1\<rparr>"
  by (simp add: run_defs entorno_ejemplo_def fs_con_indice_def indice_ac_def indice_a_def)

text \<open>
  The claim as written fails: without a condition on how the first run ended, the second
  run can end with the outcome of line 114 instead of the no-changes outcome, or make an
  embedding call and publish a different index.
\<close>

theorem segunda_ejecucion_counterexample:
  "resultado (main (entorno_ejemplo\<lparr>loader := (\<lambda>ruta. None)\<rparr>) fs_primera_ejecucion) = SinChunks
   \<and> estado_final (main (entorno_ejemplo\<lparr>loader := (\<lambda>ruta. None)\<rparr>) fs_primera_ejecucion)
       = fs_primera_ejecucion
   \<and> resultado (main (entorno_ejemplo\<lparr>loader := (\<lambda>ruta. None)\<rparr>)
        (estado_final (main (entorno_ejemplo\<lparr>loader := (\<lambda>ruta. None)\<rparr>) fs_primera_ejecucion)))
       \<noteq> SinCambios
   \<and> resultado (main (entorno_ejemplo\<lparr>dump := DumpSinAbrir\<rparr>) fs_con_indice) = Abortado DumpError
   \<and> llamadas_embed (main (entorno_ejemplo\<lparr>dump := DumpSinAbrir\<rparr>)
        (estado_final (main (entorno_ejemplo\<lparr>dump := DumpSinAbrir\<rparr>) fs_con_indice))) = 1
   \<and> dir_db_faiss (estado_final (main (entorno_ejemplo\<lparr>dump := DumpSinAbrir\<rparr>)
        (estado_final (main (entorno_ejemplo\<lparr>dump := DumpSinAbrir\<rparr>) fs_con_indice))))
       \<noteq> dir_db_faiss (estado_final (main (entorno_ejemplo\<lparr>dump := DumpSinAbrir\<rparr>) fs_con_indice))"
proof -
  let ?e1 = "entorno_ejemplo\<lparr>loader := (\<lambda>ruta. None)\<rparr>"
  let ?e2 = "entorno_ejemplo\<lparr>dump := DumpSinAbrir\<rparr>"
  have f1: "estado_final (main ?e1 fs_primera_ejecucion) = fs_primera_ejecucion"
    unfolding main_ejemplo_sin_carga by (simp add: estado_final_def)
  have r1: "resultado (main ?e1 fs_primera_ejecucion) = SinChunks"
    unfolding main_ejemplo_sin_carga by simp
  have f2: "estado_final (main ?e2 fs_con_indice)
      = fs_con_indice\<lparr>dir_db_temp := None, dir_db_faiss := Some (Directorio True indice_ac)\<rparr>"
    unfolding main_ejemplo_dump_falla by (simp add: estado_final_def)
  have r2: "resultado (main ?e2 fs_con_indice) = Abortado DumpError"
    unfolding main_ejemplo_dump_falla by simp
  show ?thesis
    unfolding f1 f2 r1 r2 unfolding main_ejemplo_dump_falla_segunda main_ejemplo_sin_carga
    by (simp add: estado_final_def indice_ac_def)
qed

section \<open>A leftover staging directory\<close>






section \<open>Nothing is ever removed\<close>










section \<open>Text chunker: properties\<close>

text \<open>
  The recursive equation of \<open>dividir_pagina\<close> is unfolded by hand, one case at a time.
\<close>

declare dividir_pagina.simps [simp del]

lemma dividir_pagina_Nil: "dividir_pagina [] = []"
  by (simp add: dividir_pagina.simps)

lemma dividir_pagina_short:
  "texto \<noteq> [] \<Longrightarrow> length texto \<le> chunk_size \<Longrightarrow> dividir_pagina texto = [texto]"
  by (simp add: dividir_pagina.simps[of texto])

lemma dividir_pagina_long:
  "chunk_size < length texto \<Longrightarrow>
   dividir_pagina texto
     = take chunk_size texto # dividir_pagina (drop (chunk_size - chunk_overlap) texto)"
  by (subst dividir_pagina.simps) auto

lemma resto_no_vacio:
  "chunk_size < length texto \<Longrightarrow> drop (chunk_size - chunk_overlap) texto \<noteq> []"
  by (simp add: chunk_size_def chunk_overlap_def)

lemma dividir_pagina_hd:
  "texto \<noteq> [] \<Longrightarrow> \<exists>resto. dividir_pagina texto = take chunk_size texto # resto"
proof (cases "length texto \<le> chunk_size")
  case True
  assume "texto \<noteq> []"
  with True show ?thesis by (simp add: dividir_pagina_short)
next
  case False
  then show ?thesis by (simp add: dividir_pagina_long)
qed

lemma dividir_pagina_reconstruye:
  "texto \<noteq> [] \<Longrightarrow>
   concat (map (\<lambda>c. take (length c - chunk_overlap) c) (butlast (dividir_pagina texto)))
     @ last (dividir_pagina texto) = texto"
proof (induction texto rule: dividir_pagina.induct)
  case (1 texto)
  show ?case
  proof (cases "length texto \<le> chunk_size")
    case True
    with "1.prems" show ?thesis by (simp add: dividir_pagina_short)
  next
    case False
    then have long: "chunk_size < length texto" by simp
    let ?t' = "drop (chunk_size - chunk_overlap) texto"
    have ne: "?t' \<noteq> []" using long by (rule resto_no_vacio)
    from dividir_pagina_hd[OF ne] have dne: "dividir_pagina ?t' \<noteq> []" by auto
    have IH: "concat (map (\<lambda>c. take (length c - chunk_overlap) c) (butlast (dividir_pagina ?t')))
                @ last (dividir_pagina ?t') = ?t'"
      using "1.IH" "1.prems" False ne by simp
    have len: "length (take chunk_size texto) = chunk_size" using long by simp
    have "concat (map (\<lambda>c. take (length c - chunk_overlap) c) (butlast (dividir_pagina texto)))
            @ last (dividir_pagina texto)
          = take (chunk_size - chunk_overlap) (take chunk_size texto)
            @ (concat (map (\<lambda>c. take (length c - chunk_overlap) c) (butlast (dividir_pagina ?t')))
               @ last (dividir_pagina ?t'))"
      using dne len by (simp add: dividir_pagina_long[OF long])
    also have "\<dots> = take (chunk_size - chunk_overlap) texto @ ?t'"
      by (simp add: IH min_def)
    also have "\<dots> = texto" by simp
    finally show ?thesis .
  qed
qed

lemma dividir_pagina_solapa:
  "Suc i < length (dividir_pagina texto) \<Longrightarrow>
   length (dividir_pagina texto ! i) = chunk_size
   \<and> chunk_overlap \<le> length (dividir_pagina texto ! Suc i)
   \<and> drop (chunk_size - chunk_overlap) (dividir_pagina texto ! i)
       = take chunk_overlap (dividir_pagina texto ! Suc i)"
proof (induction texto arbitrary: i rule: dividir_pagina.induct)
  case (1 texto)
  show ?case
  proof (cases "length texto \<le> chunk_size")
    case True
    with "1.prems" show ?thesis
      by (cases "texto = []") (simp_all add: dividir_pagina_Nil dividir_pagina_short)
  next
    case False
    then have long: "chunk_size < length texto" by simp
    let ?t' = "drop (chunk_size - chunk_overlap) texto"
    have ne: "?t' \<noteq> []" using long by (rule resto_no_vacio)
    have nn: "texto \<noteq> []" using long by auto
    from dividir_pagina_hd[OF ne] obtain resto where
      hd: "dividir_pagina ?t' = take chunk_size ?t' # resto" by blast
    note step = dividir_pagina_long[OF long]
    show ?thesis
    proof (cases i)
      case 0
      have "length (take chunk_size texto) = chunk_size" using long by simp
      moreover have "chunk_overlap \<le> length (take chunk_size ?t')"
        using long by (simp add: chunk_size_def chunk_overlap_def)
      moreover have "drop (chunk_size - chunk_overlap) (take chunk_size texto)
                       = take chunk_overlap (take chunk_size ?t')"
        by (simp add: drop_take chunk_size_def chunk_overlap_def)
      ultimately show ?thesis using 0 by (simp add: step hd)
    next
      case (Suc j)
      with "1.prems" have "Suc j < length (dividir_pagina ?t')" by (simp add: step)
      from "1.IH"[OF nn False this] Suc show ?thesis by (simp add: step)
    qed
  qed
qed

text \<open>
  Claim C8. A page text longer than \<^verbatim>\<open>chunk_size\<close> (1000) is split into at least two
  chunks; every chunk that has a successor is \<^verbatim>\<open>chunk_size\<close> long and its last
  \<^verbatim>\<open>chunk_overlap\<close> (200) characters are the first \<^verbatim>\<open>chunk_overlap\<close> characters of
  the next chunk; and concatenating the chunks, each one but the last without its
  overlapping suffix, gives back the page text.
\<close>

theorem dividir_pagina_solapa_y_reconstruye:
  assumes "chunk_size < length texto"
  shows "2 \<le> length (dividir_pagina texto)
   \<and> (\<forall>i. Suc i < length (dividir_pagina texto) \<longrightarrow>
         length (dividir_pagina texto ! i) = chunk_size
       \<and> chunk_overlap \<le> length (dividir_pagina texto ! Suc i)
       \<and> drop (chunk_size - chunk_overlap) (dividir_pagina texto ! i)
           = take chunk_overlap (dividir_pagina texto ! Suc i))
   \<and> concat (map (\<lambda>c. take (length c - chunk_overlap) c) (butlast (dividir_pagina texto)))
       @ last (dividir_pagina texto) = texto"
proof -
  let ?t' = "drop (chunk_size - chunk_overlap) texto"
  have ne: "?t' \<noteq> []" using assms by (rule resto_no_vacio)
  from dividir_pagina_hd[OF ne] have "dividir_pagina ?t' \<noteq> []" by auto
  then have "2 \<le> length (dividir_pagina texto)"
    by (cases "dividir_pagina ?t'") (simp_all add: dividir_pagina_long[OF assms])
  moreover have "texto \<noteq> []" using assms by auto
  ultimately show ?thesis
    using dividir_pagina_solapa[of _ texto] dividir_pagina_reconstruye[of texto] by blast
qed

theorem dividir_pagina_solapa_y_reconstruye_witness:
  "chunk_size < length (replicate 1100 CHR ''a'' @ replicate 1400 CHR ''b'')
   \<and> map length (dividir_pagina (replicate 1100 CHR ''a'' @ replicate 1400 CHR ''b''))
       = [1000, 1000, 900]
   \<and> drop (chunk_size - chunk_overlap)
        (dividir_pagina (replicate 1100 CHR ''a'' @ replicate 1400 CHR ''b'') ! 0)
       = take chunk_overlap
        (dividir_pagina (replicate 1100 CHR ''a'' @ replicate 1400 CHR ''b'') ! 1)
   \<and> concat (map (\<lambda>c. take (length c - chunk_overlap) c)
          (butlast (dividir_pagina (replicate 1100 CHR ''a'' @ replicate 1400 CHR ''b''))))
       @ last (dividir_pagina (replicate 1100 CHR ''a'' @ replicate 1400 CHR ''b''))
       = replicate 1100 CHR ''a'' @ replicate 1400 CHR ''b''"
proof -
  let ?t = "replicate 1100 CHR ''a'' @ replicate 1400 CHR ''b''"
  have h: "chunk_size < length ?t" by (simp add: chunk_size_def)
  have ev: "dividir_pagina ?t
     = [replicate 1000 CHR ''a'',
        replicate 300 CHR ''a'' @ replicate 700 CHR ''b'',
        replicate 900 CHR ''b'']"
    by (simp add: dividir_pagina.simps[of "_ @ _"] dividir_pagina.simps[of "replicate _ _"]
          chunk_size_def chunk_overlap_def)
  from dividir_pagina_solapa_y_reconstruye[OF h] have
    "Suc 0 < length (dividir_pagina ?t) \<longrightarrow>
       drop (chunk_size - chunk_overlap) (dividir_pagina ?t ! 0)
         = take chunk_overlap (dividir_pagina ?t ! Suc 0)"
    and "concat (map (\<lambda>c. take (length c - chunk_overlap) c) (butlast (dividir_pagina ?t)))
           @ last (dividir_pagina ?t) = ?t"
    by blast+
  moreover have "map length (dividir_pagina ?t) = [1000, 1000, 900]"
    unfolding ev by simp
  moreover have "Suc 0 < length (dividir_pagina ?t)" unfolding ev by simp
  ultimately show ?thesis using h by simp
qed

text \<open>
  Claim C9. A page text shorter than \<^verbatim>\<open>chunk_size\<close> yields exactly one chunk, the
  whole page, and the empty page text yields no chunk; the second clause takes the empty
  page out of the first.
\<close>

theorem dividir_pagina_pagina_corta:
  "(texto \<noteq> [] \<and> length texto < chunk_size \<longrightarrow> dividir_pagina texto = [texto])
   \<and> dividir_pagina [] = []"
  by (simp add: dividir_pagina_Nil dividir_pagina_short)

theorem dividir_pagina_pagina_corta_witness:
  "''hola'' \<noteq> [] \<and> length ''hola'' < chunk_size \<and> dividir_pagina ''hola'' = [''hola'']"
proof -
  have h: "''hola'' \<noteq> [] \<and> length ''hola'' < chunk_size" by (simp add: chunk_size_def)
  with dividir_pagina_pagina_corta[of "''hola''"] show ?thesis by blast
qed

end
